theory Spec2Isabelle
  imports Main "HOL-Library.AList" "HOL-Library.Sublist"
begin

section \<open>Renderer: tray icon derived from the voice state\<close>

text \<open>
  The second unit of \<^verbatim>\<open>src/renderer/patches/keybinds.ts\<close> keeps one module variable,
  \<^verbatim>\<open>isInCall\<close>, and drives the tray through \<^verbatim>\<open>VesktopNative.tray.setIcon(name)\<close>.
  The state below holds that variable and the name last handed to \<^verbatim>\<open>setIcon\<close>.
  The two flags \<^verbatim>\<open>voiceActions.isSelfDeaf()\<close> and \<^verbatim>\<open>voiceActions.isSelfMute()\<close> belong to
  the web client's own store; a handler reads them when it runs, so they are an argument.
\<close>

record renderer_state =
  isInCall :: bool
  trayIcon :: string

record voice_flags =
  isSelfDeaf :: bool
  isSelfMute :: bool

definition setIcon :: "string \<Rightarrow> renderer_state \<Rightarrow> renderer_state" where
  "setIcon name st = st\<lparr>trayIcon := name\<rparr>"

definition setCurrentTrayIcon :: "voice_flags \<Rightarrow> renderer_state \<Rightarrow> renderer_state" where
  "setCurrentTrayIcon v st =
     (if isInCall st then
        (if isSelfDeaf v then setIcon ''deafened'' st
         else if isSelfMute v then setIcon ''muted'' st
         else setIcon ''idle'' st)
      else setIcon ''icon'' st)"

text \<open>
  The four subscriptions of \<^verbatim>\<open>FluxDispatcher\<close>. \<^verbatim>\<open>SPEAKING\<close> carries
  \<^verbatim>\<open>userId\<close>, \<^verbatim>\<open>context\<close> and \<^verbatim>\<open>speakingFlags\<close> (a number, tested for truthiness);
  \<^verbatim>\<open>RTC_CONNECTION_STATE\<close> carries \<^verbatim>\<open>state\<close> and \<^verbatim>\<open>context\<close>.
\<close>

datatype flux_event =
    SPEAKING string string int
  | AUDIO_TOGGLE_SELF_DEAF
  | AUDIO_TOGGLE_SELF_MUTE
  | RTC_CONNECTION_STATE string string

fun dispatch :: "string \<Rightarrow> voice_flags \<Rightarrow> flux_event \<Rightarrow> renderer_state \<Rightarrow> renderer_state" where
  "dispatch userID v (SPEAKING uid ctx speakingFlags) st =
     (if uid = userID \<and> ctx = ''default'' then
        (if speakingFlags \<noteq> 0 then setIcon ''speaking'' st
         else setCurrentTrayIcon v st)
      else st)"
| "dispatch userID v AUDIO_TOGGLE_SELF_DEAF st =
     (if isInCall st then setCurrentTrayIcon v st else st)"
| "dispatch userID v AUDIO_TOGGLE_SELF_MUTE st =
     (if isInCall st then setCurrentTrayIcon v st else st)"
| "dispatch userID v (RTC_CONNECTION_STATE state ctx) st =
     (if state = ''RTC_CONNECTED'' \<and> ctx = ''default'' then
        setCurrentTrayIcon v (st\<lparr>isInCall := True\<rparr>)
      else if state = ''RTC_DISCONNECTED'' \<and> ctx = ''default'' then
        (setIcon ''icon'' st)\<lparr>isInCall := False\<rparr>
      else st)"

section \<open>Main process: effects on the window, the session and the application\<close>

text \<open>
  Calls into the embedding browser shell are recorded as a list of effects, in the order
  the code makes them. \<^verbatim>\<open>ExecuteJavaScript s\<close> is
  \<^verbatim>\<open>mainWin.webContents.executeJavaScript(s)\<close>: the script text \<open>s\<close> runs in the main
  window's page, where \<^verbatim>\<open>Vesktop.keybindCallbacks\<close> is the registry that
  \<^verbatim>\<open>registerKeybind\<close> fills.
\<close>

datatype effect =
    ExecuteJavaScript string
  | AppQuit
  | AppRelaunch
  | AppHide
  | WinRestore
  | WinShow
  | WinFocus
  | WinHide
  | WinClose
  | PreventDefault
  | ClearStorageData
  | ClearCache
  | ClearCodeCaches
  | RmDataDir

datatype js_error = TypeError

subsection \<open>Second instance: keybind forwarding (\<^verbatim>\<open>src/main/index.ts\<close>)\<close>

text \<open>
  \<^verbatim>\<open>Array.prototype.indexOf\<close> gives the first position of an element, or \<open>-1\<close>.
  Reading an array out of range gives \<^verbatim>\<open>undefined\<close> (here \<open>None\<close>), and a template
  literal prints \<^verbatim>\<open>undefined\<close> as the text \<^verbatim>\<open>undefined\<close>.
\<close>

fun indexOf :: "'a list \<Rightarrow> 'a \<Rightarrow> int" where
  "indexOf [] a = - 1"
| "indexOf (b # bs) a =
     (if b = a then 0 else (let r = indexOf bs a in if r = - 1 then - 1 else r + 1))"

definition at_index :: "'a list \<Rightarrow> int \<Rightarrow> 'a option" where
  "at_index xs i = (if 0 \<le> i \<and> i < int (length xs) then Some (xs ! nat i) else None)"

definition interpolate :: "string option \<Rightarrow> string" where
  "interpolate v = (case v of None \<Rightarrow> ''undefined'' | Some s \<Rightarrow> s)"

record browser_window =
  isMinimized :: bool
  isVisible :: bool

text \<open>
  \<^verbatim>\<open>mainWin\<close> is a module variable assigned when the main window is built; the handler
  itself tests \<^verbatim>\<open>if (mainWin)\<close> on its focus path, so it may be unset (\<open>None\<close>).
  On the keybind path it is used unguarded: reading \<^verbatim>\<open>webContents\<close> of
  \<^verbatim>\<open>undefined\<close> throws.
\<close>

definition executeJavaScript :: "browser_window option \<Rightarrow> string \<Rightarrow> js_error + effect list" where
  "executeJavaScript mainWin script =
     (case mainWin of None \<Rightarrow> Inl TypeError | Some w \<Rightarrow> Inr [ExecuteJavaScript script])"

definition second_instance ::
  "browser_window option \<Rightarrow> string list \<Rightarrow> bool \<Rightarrow> js_error + effect list" where
  "second_instance mainWin cmdLine data_IS_DEV =
     (let keybindIndex = indexOf cmdLine ''--keybind'' in
      if keybindIndex \<noteq> - 1 then
        (if at_index cmdLine (keybindIndex + 2) = Some ''keyup'' \<or>
            at_index cmdLine (keybindIndex + 2) = Some ''keydown''
         then
           executeJavaScript mainWin
             (''Vesktop.keybindCallbacks['' @ interpolate (at_index cmdLine (keybindIndex + 1)) @
              '']('' @
              (if at_index cmdLine (keybindIndex + 2) = Some ''keydown'' then ''true'' else ''false'') @
              '')'')
         else
           executeJavaScript mainWin
             (''Vesktop.keybindCallbacks['' @ interpolate (at_index cmdLine (keybindIndex + 1)) @
              ''](false)''))
      else if data_IS_DEV then Inr [AppQuit]
      else
        (case mainWin of
           Some w \<Rightarrow>
             Inr ((if isMinimized w then [WinRestore] else []) @
                  (if \<not> isVisible w then [WinShow] else []) @
                  [WinFocus])
         | None \<Rightarrow> Inr []))"

subsection \<open>Settings listener bookkeeping (\<^verbatim>\<open>src/main/mainWindow.ts\<close>)\<close>

text \<open>
  Modelled from the spec: the \<^verbatim>\<open>SettingsStore\<close> class (\<^verbatim>\<open>shared/utils/SettingsStore\<close>) is
  not among the sources. The spec gives it \<^verbatim>\<open>addChangeListener(key, callback)\<close> and
  \<^verbatim>\<open>removeChangeListener(key, callback)\<close>, and says that a \<^verbatim>\<open>set\<close> invokes all listeners
  registered for that key. A registration is therefore a pair of a key and a callback, and
  the store's registrations are a set of such pairs.
\<close>

definition addChangeListener :: "string \<Rightarrow> 'cb \<Rightarrow> (string \<times> 'cb) set \<Rightarrow> (string \<times> 'cb) set" where
  "addChangeListener path cb regs = insert (path, cb) regs"

definition removeChangeListener :: "string \<Rightarrow> 'cb \<Rightarrow> (string \<times> 'cb) set \<Rightarrow> (string \<times> 'cb) set" where
  "removeChangeListener path cb regs = regs - {(path, cb)}"

text \<open>
  \<^verbatim>\<open>makeSettingsListenerHelpers\<close> closes over a \<^verbatim>\<open>Map\<close> from callback to path.
  A JavaScript \<^verbatim>\<open>Map\<close> iterates in insertion order, and \<^verbatim>\<open>set\<close> on a key already
  present replaces its value in place: this is \<^const>\<open>AList.update\<close> on an association
  list. The state of one pair of helpers is that map together with the registrations of
  the store \<^verbatim>\<open>o\<close> they were made for.
\<close>

record 'cb listener_helpers =
  listeners :: "('cb \<times> string) list"
  store_listeners :: "(string \<times> 'cb) set"

definition makeSettingsListenerHelpers :: "(string \<times> 'cb) set \<Rightarrow> 'cb listener_helpers" where
  "makeSettingsListenerHelpers regs = \<lparr>listeners = [], store_listeners = regs\<rparr>"

definition addListener :: "string \<Rightarrow> 'cb \<Rightarrow> 'cb listener_helpers \<Rightarrow> 'cb listener_helpers" where
  "addListener path cb h =
     \<lparr>listeners = AList.update cb path (listeners h),
      store_listeners = addChangeListener path cb (store_listeners h)\<rparr>"

definition removeAllListeners :: "'cb listener_helpers \<Rightarrow> 'cb listener_helpers" where
  "removeAllListeners h =
     \<lparr>listeners = [],
      store_listeners =
        fold (\<lambda>(listener, path) regs. removeChangeListener path listener regs)
          (listeners h) (store_listeners h)\<rparr>"

subsection \<open>The reset flow\<close>

text \<open>
  \<^verbatim>\<open>MessageBoxChoice\<close> comes from \<^verbatim>\<open>./constants\<close>, which is not among the sources; its two
  members are parameters. \<^verbatim>\<open>dialog.showMessageBox\<close> resolves to the index of the button
  clicked, or to \<^verbatim>\<open>cancelId\<close> when the dialog is dismissed without a click.
\<close>

record message_box_choice =
  Default :: nat
  Cancel :: nat

datatype dialog_action = Clicked nat | Dismissed

definition showMessageBox :: "nat \<Rightarrow> dialog_action \<Rightarrow> nat" where
  "showMessageBox cancelId act = (case act of Clicked i \<Rightarrow> i | Dismissed \<Rightarrow> cancelId)"

text \<open>
  The four awaited operations run in order. None is wrapped in \<^verbatim>\<open>try\<close>, so the first one
  that rejects ends \<^verbatim>\<open>clearData\<close>: the operation was started, nothing after it runs.
  \<open>rejects\<close> says which operations reject.
\<close>

fun awaits :: "(effect \<Rightarrow> bool) \<Rightarrow> effect list \<Rightarrow> effect list \<times> bool" where
  "awaits rejects [] = ([], True)"
| "awaits rejects (e # es) =
     (if rejects e then ([e], False)
      else (case awaits rejects es of (done, ok) \<Rightarrow> (e # done, ok)))"

definition clearData :: "message_box_choice \<Rightarrow> (effect \<Rightarrow> bool) \<Rightarrow> dialog_action \<Rightarrow> effect list" where
  "clearData MessageBoxChoice rejects act =
     (let response = showMessageBox (Cancel MessageBoxChoice) act in
      if response = Cancel MessageBoxChoice then []
      else
        (case awaits rejects [ClearStorageData, ClearCache, ClearCodeCaches, RmDataDir] of
           (done, ok) \<Rightarrow> [WinClose] @ done @ (if ok then [AppRelaunch, AppQuit] else [])))"

subsection \<open>Window bounds options\<close>

text \<open>
  \<^verbatim>\<open>State.store\<close> is read from a file, and the code allows for a missing
  \<^verbatim>\<open>windowBounds\<close> (\<^verbatim>\<open>?? {}\<close>) and for each of its fields being absent
  (\<^verbatim>\<open>width ?? DEFAULT_WIDTH\<close>, \<^verbatim>\<open>x != null\<close>), so every field is optional.
  \<^verbatim>\<open>DEFAULT_WIDTH\<close>, \<^verbatim>\<open>DEFAULT_HEIGHT\<close>, \<^verbatim>\<open>MIN_WIDTH\<close> and \<^verbatim>\<open>MIN_HEIGHT\<close> come from
  \<^verbatim>\<open>./constants\<close>, which is not among the sources: they are parameters.
\<close>

record window_bounds =
  bounds_x :: "int option"
  bounds_y :: "int option"
  bounds_width :: "int option"
  bounds_height :: "int option"

record state_store =
  windowBounds :: "window_bounds option"
  displayid :: "int option"

record display =
  display_id :: int

record constants =
  DEFAULT_WIDTH :: int
  DEFAULT_HEIGHT :: int
  MIN_WIDTH :: int
  MIN_HEIGHT :: int

record window_options =
  opt_width :: "int option"
  opt_height :: "int option"
  opt_x :: "int option"
  opt_y :: "int option"
  opt_minWidth :: "int option"
  opt_minHeight :: "int option"

definition empty_options :: window_options where
  "empty_options =
     \<lparr>opt_width = None, opt_height = None, opt_x = None, opt_y = None,
      opt_minWidth = None, opt_minHeight = None\<rparr>"

definition nullish :: "'a option \<Rightarrow> 'a \<Rightarrow> 'a" where
  "nullish v d = (case v of None \<Rightarrow> d | Some a \<Rightarrow> a)"

definition getWindowBoundsOptions ::
  "constants \<Rightarrow> bool \<Rightarrow> state_store \<Rightarrow> display list \<Rightarrow> bool option \<Rightarrow> window_options" where
  "getWindowBoundsOptions c isDeckGameMode st allDisplays disableMinSize =
     (if isDeckGameMode then empty_options
      else
        (let b = nullish (windowBounds st)
                   \<lparr>bounds_x = None, bounds_y = None, bounds_width = None, bounds_height = None\<rparr>;
             options = empty_options
               \<lparr>opt_width := Some (nullish (bounds_width b) (DEFAULT_WIDTH c)),
                opt_height := Some (nullish (bounds_height b) (DEFAULT_HEIGHT c))\<rparr>;
             storedDisplay = find (\<lambda>d. Some (display_id d) = displayid st) allDisplays;
             options1 =
               (if bounds_x b \<noteq> None \<and> bounds_y b \<noteq> None \<and> storedDisplay \<noteq> None
                then options\<lparr>opt_x := bounds_x b, opt_y := bounds_y b\<rparr>
                else options);
             options2 =
               (if disableMinSize = Some True then options1
                else options1\<lparr>opt_minWidth := Some (MIN_WIDTH c),
                               opt_minHeight := Some (MIN_HEIGHT c)\<rparr>)
         in options2))"

subsection \<open>Spellcheck languages\<close>

text \<open>
  The array methods used by \<^verbatim>\<open>initSpellCheckLanguages\<close>, written out:
  \<^verbatim>\<open>includes\<close> searches from the left, \<^verbatim>\<open>filter\<close> keeps the elements that pass in
  their order, and \<^verbatim>\<open>slice(start, end)\<close> counts a negative bound from the end and clamps
  both bounds to the array.
\<close>

fun array_includes :: "'a list \<Rightarrow> 'a \<Rightarrow> bool" where
  "array_includes [] a = False"
| "array_includes (b # bs) a = (if b = a then True else array_includes bs a)"

fun array_filter :: "('a \<Rightarrow> bool) \<Rightarrow> 'a list \<Rightarrow> 'a list" where
  "array_filter p [] = []"
| "array_filter p (a # as) = (if p a then a # array_filter p as else array_filter p as)"

definition slice_bound :: "int \<Rightarrow> int \<Rightarrow> nat" where
  "slice_bound len i = (if i < 0 then nat (max (len + i) 0) else nat (min i len))"

definition slice :: "'a list \<Rightarrow> int \<Rightarrow> int \<Rightarrow> 'a list" where
  "slice xs start fin =
     (let len = int (length xs); k = slice_bound len start; e = slice_bound len fin
      in drop k (take e xs))"

text \<open>
  The session holds the languages the engine supports and the languages now in use.
  When no list is passed, the code asks the page for \<^verbatim>\<open>navigator.languages\<close>: the
  request may reject (caught, giving the empty array) or resolve to a value that may be
  nullish.
\<close>

record session =
  availableSpellCheckerLanguages :: "string list"
  spellCheckerLanguages :: "string list"

datatype navigator_reply = Rejected | Resolved "string list option"

definition setSpellCheckerLanguages :: "string list \<Rightarrow> session \<Rightarrow> session" where
  "setSpellCheckerLanguages langs ses = ses\<lparr>spellCheckerLanguages := langs\<rparr>"

definition applicable_languages :: "string list \<Rightarrow> string list \<Rightarrow> string list" where
  "applicable_languages available languages =
     slice (array_filter (\<lambda>l. array_includes available l) languages) 0 5"

definition initSpellCheckLanguages ::
  "navigator_reply \<Rightarrow> string list option \<Rightarrow> session \<Rightarrow> session" where
  "initSpellCheckLanguages nav languages ses =
     (let languages1 =
            (case languages of
               Some ls \<Rightarrow> Some ls
             | None \<Rightarrow> (case nav of Rejected \<Rightarrow> Some [] | Resolved r \<Rightarrow> r))
      in case languages1 of
           None \<Rightarrow> ses
         | Some ls \<Rightarrow>
             (let available = availableSpellCheckerLanguages ses;
                  applicable = applicable_languages available ls
              in if length applicable \<noteq> 0 then setSpellCheckerLanguages applicable ses
                 else ses))"

subsection \<open>The close handler and the quitting flag\<close>

text \<open>
  \<^verbatim>\<open>Settings.store.minimizeToTray\<close> and \<^verbatim>\<open>Settings.store.tray\<close> are compared with
  \<^verbatim>\<open>!== false\<close>, so an unset value counts as enabled; \<^verbatim>\<open>process.platform\<close> is a string.
  The handler's effects are empty when it returns before \<^verbatim>\<open>e.preventDefault()\<close>: the
  default action, destroying the window, then goes ahead.
\<close>

record settings =
  minimizeToTray :: "bool option"
  tray :: "bool option"

record main_state =
  isQuitting :: bool

definition before_quit :: "main_state \<Rightarrow> main_state" where
  "before_quit m = m\<lparr>isQuitting := True\<rparr>"

definition tray_menu_quit :: "main_state \<Rightarrow> main_state \<times> effect list" where
  "tray_menu_quit m = (m\<lparr>isQuitting := True\<rparr>, [AppQuit])"

definition on_close :: "main_state \<Rightarrow> bool \<Rightarrow> string \<Rightarrow> settings \<Rightarrow> effect list" where
  "on_close m isDeckGameMode platform s =
     (let useTray = (\<not> isDeckGameMode \<and> minimizeToTray s \<noteq> Some False \<and> tray s \<noteq> Some False)
      in if isQuitting m \<or> (platform \<noteq> ''darwin'' \<and> \<not> useTray) then []
         else [PreventDefault] @ (if platform = ''darwin'' then [AppHide] else [WinHide]))"

subsection \<open>Accent colour\<close>

text \<open>
  \<^verbatim>\<open>Number.prototype.toString(16)\<close> on an integer, and \<^verbatim>\<open>padStart(2, "0")\<close>
  (which leaves a string of two or more characters as it is).
\<close>

definition hex_digit :: "nat \<Rightarrow> char" where
  "hex_digit d = ''0123456789abcdef'' ! d"

fun toString16_nat :: "nat \<Rightarrow> string" where
  "toString16_nat n =
     (if n < 16 then [hex_digit n] else toString16_nat (n div 16) @ [hex_digit (n mod 16)])"

definition toString16 :: "int \<Rightarrow> string" where
  "toString16 v = (if v < 0 then ''-'' @ toString16_nat (nat (- v)) else toString16_nat (nat v))"

definition padStart :: "nat \<Rightarrow> char \<Rightarrow> string \<Rightarrow> string" where
  "padStart n c s = replicate (n - length s) c @ s"

text \<open>
  \<^verbatim>\<open>Math.round\<close> returns an integer, \<^verbatim>\<open>NaN\<close> or an infinity, and
  \<^verbatim>\<open>toString(16)\<close> prints the last three by name.
\<close>

datatype js_rounded = Finite int | NaN | PosInfinity | NegInfinity

definition number_toString16 :: "js_rounded \<Rightarrow> string" where
  "number_toString16 value =
     (case value of
        Finite v \<Rightarrow> toString16 v
      | NaN \<Rightarrow> ''NaN''
      | PosInfinity \<Rightarrow> ''Infinity''
      | NegInfinity \<Rightarrow> ''-Infinity'')"

definition toHex :: "js_rounded \<Rightarrow> string" where
  "toHex value = padStart 2 (CHR ''0'') (number_toString16 value)"

definition is_hex :: "char \<Rightarrow> bool" where
  "is_hex ch \<longleftrightarrow> ch \<in> set ''0123456789abcdef''"

text \<open>
  \<^verbatim>\<open>getAccentColor\<close> returns a promise. It is fulfilled with a string, or rejected, or
  never settled: an exception thrown inside a bus callback escapes to the event loop and
  neither \<^verbatim>\<open>resolve\<close> nor \<^verbatim>\<open>reject\<close> is called.
\<close>

datatype promise_outcome = Fulfilled string | PromiseRejected | Unsettled

text \<open>
  On Linux the colour is read over the desktop bus, inside the promise executor and with
  no \<^verbatim>\<open>try\<close> anywhere. What the bus does decides the outcome:
  \<^item> \<open>SessionBusThrows\<close>: \<^verbatim>\<open>dbus.sessionBus()\<close>, \<^verbatim>\<open>getService\<close> or
    \<^verbatim>\<open>getInterface\<close> throws at once; a throw inside the executor rejects the promise;
  \<^item> \<open>BusErrorEvent\<close>: the bus connection emits an error event that nothing listens
    to, and no callback runs;
  \<^item> \<open>GetInterfaceError\<close>: the \<^verbatim>\<open>getInterface\<close> callback gets an error;
  \<^item> \<open>ReadThrows\<close>: the call \<^verbatim>\<open>settings.Read(...)\<close> throws inside that callback;
  \<^item> \<open>ReadError\<close>: the \<^verbatim>\<open>Read\<close> callback gets an error;
  \<^item> \<open>ReadMalformed\<close>: the result has not the nested shape, so that
    \<^verbatim>\<open>result[1][0][1][0]\<close> or its destructuring throws inside the callback;
  \<^item> \<open>ReadResult r g b\<close>: the result delivers three components.

  The components are floating-point numbers (or anything else the bus delivered);
  \<open>round255 c\<close> stands for \<^verbatim>\<open>Math.round(c * 255)\<close> and is a parameter, so nothing is
  assumed of floating-point arithmetic. Elsewhere the native
  \<^verbatim>\<open>systemPreferences.getAccentColor\<close> is called if it exists (\<open>None\<close>: it does not
  exist; \<open>Some s\<close>: it returns \<open>s\<close>), and the promise is made by
  \<^verbatim>\<open>Promise.resolve\<close>.
\<close>

datatype 'f portal_reply =
    SessionBusThrows
  | BusErrorEvent
  | GetInterfaceError
  | ReadThrows
  | ReadError
  | ReadMalformed
  | ReadResult 'f 'f 'f

definition getAccentColor ::
  "('f \<Rightarrow> js_rounded) \<Rightarrow> string \<Rightarrow> 'f portal_reply \<Rightarrow> string option \<Rightarrow> promise_outcome" where
  "getAccentColor round255 platform reply native =
     (if platform = ''linux'' then
        (case reply of
           SessionBusThrows \<Rightarrow> PromiseRejected
         | BusErrorEvent \<Rightarrow> Unsettled
         | GetInterfaceError \<Rightarrow> Fulfilled []
         | ReadThrows \<Rightarrow> Unsettled
         | ReadError \<Rightarrow> Fulfilled []
         | ReadMalformed \<Rightarrow> Unsettled
         | ReadResult r g b \<Rightarrow>
             (let r255 = round255 r; g255 = round255 g; b255 = round255 b;
                  hexColor = ''#'' @ toHex r255 @ toHex g255 @ toHex b255
              in Fulfilled hexColor))
      else
        Fulfilled (''#'' @ (case native of None \<Rightarrow> [] | Some s \<Rightarrow> (if s = [] then [] else s))))"

section \<open>Tray icon precedence\<close>

text \<open>
  C1. Whenever the user is in a call and both self-muted and self-deafened,
  \<^verbatim>\<open>setCurrentTrayIcon\<close> sets the icon \<^verbatim>\<open>deafened\<close>, which is not \<^verbatim>\<open>muted\<close>; in a call and
  self-muted but not deafened it sets \<^verbatim>\<open>muted\<close>; outside a call it sets \<^verbatim>\<open>icon\<close>,
  whatever the flags are.
\<close>

theorem setCurrentTrayIcon_precedence:
  "(isInCall st \<and> isSelfMute v \<and> isSelfDeaf v \<longrightarrow>
      trayIcon (setCurrentTrayIcon v st) = ''deafened'' \<and>
      trayIcon (setCurrentTrayIcon v st) \<noteq> ''muted'') \<and>
   (isInCall st \<and> isSelfMute v \<and> \<not> isSelfDeaf v \<longrightarrow>
      trayIcon (setCurrentTrayIcon v st) = ''muted'') \<and>
   (\<not> isInCall st \<longrightarrow> trayIcon (setCurrentTrayIcon v st) = ''icon'')"
proof -
  have shown: "trayIcon (setIcon name st) = name" for name
    by (simp add: setIcon_def)
  have deaf: "setCurrentTrayIcon v st = setIcon ''deafened'' st"
    if "isInCall st" and "isSelfDeaf v"
    using that by (simp add: setCurrentTrayIcon_def)
  have mute: "setCurrentTrayIcon v st = setIcon ''muted'' st"
    if "isInCall st" and "\<not> isSelfDeaf v" and "isSelfMute v"
    using that by (simp add: setCurrentTrayIcon_def)
  have out: "setCurrentTrayIcon v st = setIcon ''icon'' st"
    if "\<not> isInCall st"
    using that by (simp add: setCurrentTrayIcon_def)
  have differ: "''deafened'' \<noteq> ''muted''"
    by simp
  from deaf mute out differ show ?thesis
    by (simp add: shown)
qed

theorem setCurrentTrayIcon_precedence_witness:
  "trayIcon (setCurrentTrayIcon \<lparr>isSelfDeaf = True, isSelfMute = True\<rparr>
      \<lparr>isInCall = True, trayIcon = ''idle''\<rparr>) = ''deafened'' \<and>
   trayIcon (setCurrentTrayIcon \<lparr>isSelfDeaf = False, isSelfMute = True\<rparr>
      \<lparr>isInCall = True, trayIcon = ''idle''\<rparr>) = ''muted'' \<and>
   trayIcon (setCurrentTrayIcon \<lparr>isSelfDeaf = True, isSelfMute = True\<rparr>
      \<lparr>isInCall = False, trayIcon = ''idle''\<rparr>) = ''icon''"
  using
    setCurrentTrayIcon_precedence
      [of "\<lparr>isInCall = True, trayIcon = ''idle''\<rparr>" "\<lparr>isSelfDeaf = True, isSelfMute = True\<rparr>"]
    setCurrentTrayIcon_precedence
      [of "\<lparr>isInCall = True, trayIcon = ''idle''\<rparr>" "\<lparr>isSelfDeaf = False, isSelfMute = True\<rparr>"]
    setCurrentTrayIcon_precedence
      [of "\<lparr>isInCall = False, trayIcon = ''idle''\<rparr>" "\<lparr>isSelfDeaf = True, isSelfMute = True\<rparr>"]
  by simp

section \<open>Voice events while muted\<close>

text \<open>
  C7 says that every voice event received in a call while self-muted and not deafened
  leaves the icon at \<^verbatim>\<open>muted\<close>, a speaking signal for the current user included.
  The \<^verbatim>\<open>SPEAKING\<close> subscription does not go through \<^verbatim>\<open>setCurrentTrayIcon\<close> when
  \<^verbatim>\<open>speakingFlags\<close> is set: it calls \<^verbatim>\<open>setIcon("speaking")\<close> at once, and the mute flag is
  never read. In a call, muted and not deafened, a speaking signal for the current user in
  the default context with flags \<open>1\<close> sets \<^verbatim>\<open>speaking\<close>.
\<close>

theorem dispatch_speaking_while_muted:
  "isInCall \<lparr>isInCall = True, trayIcon = ''muted''\<rparr> \<and>
   isSelfMute \<lparr>isSelfDeaf = False, isSelfMute = True\<rparr> \<and>
   \<not> isSelfDeaf \<lparr>isSelfDeaf = False, isSelfMute = True\<rparr> \<and>
   trayIcon (dispatch ''me'' \<lparr>isSelfDeaf = False, isSelfMute = True\<rparr> (SPEAKING ''me'' ''default'' 1)
     \<lparr>isInCall = True, trayIcon = ''muted''\<rparr>) = ''speaking'' \<and>
   trayIcon (dispatch ''me'' \<lparr>isSelfDeaf = False, isSelfMute = True\<rparr> (SPEAKING ''me'' ''default'' 1)
     \<lparr>isInCall = True, trayIcon = ''muted''\<rparr>) \<noteq> ''muted''"
  by (simp add: setIcon_def)

text \<open>
  C7, amended. In a call, self-muted and not deafened, the icon after an event is:
  \<^verbatim>\<open>muted\<close> after a mute or deafen toggle, after a connection in the default context, and
  after a speaking signal for the current user in the default context whose flags are zero
  (these are the events that recompute through \<^verbatim>\<open>setCurrentTrayIcon\<close>);
  \<^verbatim>\<open>speaking\<close> after a speaking signal for the current user in the default context whose
  flags are set; \<^verbatim>\<open>icon\<close> after a disconnection in the default context; and unchanged
  after any other event (a speaking signal of another user or context, another connection
  state or context).
\<close>

theorem dispatch_muted_in_call:
  assumes "isInCall st" and "isSelfMute v" and "\<not> isSelfDeaf v"
  shows "trayIcon (dispatch userID v ev st) =
           (case ev of
              SPEAKING uid ctx speakingFlags \<Rightarrow>
                if uid = userID \<and> ctx = ''default''
                then (if speakingFlags \<noteq> 0 then ''speaking'' else ''muted'')
                else trayIcon st
            | AUDIO_TOGGLE_SELF_DEAF \<Rightarrow> ''muted''
            | AUDIO_TOGGLE_SELF_MUTE \<Rightarrow> ''muted''
            | RTC_CONNECTION_STATE state ctx \<Rightarrow>
                if state = ''RTC_CONNECTED'' \<and> ctx = ''default'' then ''muted''
                else if state = ''RTC_DISCONNECTED'' \<and> ctx = ''default'' then ''icon''
                else trayIcon st)"
  using assms
  by (cases ev) (simp_all add: setCurrentTrayIcon_def setIcon_def)

theorem dispatch_muted_in_call_witness:
  "trayIcon (dispatch ''me'' \<lparr>isSelfDeaf = False, isSelfMute = True\<rparr> AUDIO_TOGGLE_SELF_MUTE
     \<lparr>isInCall = True, trayIcon = ''idle''\<rparr>) = ''muted'' \<and>
   trayIcon (dispatch ''me'' \<lparr>isSelfDeaf = False, isSelfMute = True\<rparr> (SPEAKING ''me'' ''default'' 0)
     \<lparr>isInCall = True, trayIcon = ''speaking''\<rparr>) = ''muted''"
  using dispatch_muted_in_call
      [of "\<lparr>isInCall = True, trayIcon = ''idle''\<rparr>" "\<lparr>isSelfDeaf = False, isSelfMute = True\<rparr>"
          "''me''" AUDIO_TOGGLE_SELF_MUTE]
    dispatch_muted_in_call
      [of "\<lparr>isInCall = True, trayIcon = ''speaking''\<rparr>" "\<lparr>isSelfDeaf = False, isSelfMute = True\<rparr>"
          "''me''" "SPEAKING ''me'' ''default'' 0"]
  by simp

section \<open>Keybind forwarding from a second instance\<close>

lemma indexOf_first: "a \<notin> set pre \<Longrightarrow> indexOf (pre @ a # rest) a = int (length pre)"
  by (induction pre) (auto simp: Let_def)

lemma at_index_append: "0 \<le> i \<Longrightarrow> at_index (pre @ xs) (int (length pre) + i) = at_index xs i"
  by (auto simp: at_index_def nth_append nat_add_distrib)

lemma at_index_1: "at_index (a # b # xs) 1 = Some b"
  by (simp add: at_index_def)

lemma at_index_2: "at_index (a # b # xs) 2 = (case xs of [] \<Rightarrow> None | c # _ \<Rightarrow> Some c)"
  by (simp add: at_index_def split: list.splits)

lemma keybind_at:
  assumes "''--keybind'' \<notin> set pre"
  shows "indexOf (pre @ ''--keybind'' # k # rest) ''--keybind'' = int (length pre)"
    and "at_index (pre @ ''--keybind'' # k # rest) (int (length pre) + 1) = Some k"
    and "at_index (pre @ ''--keybind'' # k # rest) (int (length pre) + 2) =
           (case rest of [] \<Rightarrow> None | c # _ \<Rightarrow> Some c)"
  using assms by (simp_all add: indexOf_first at_index_append at_index_1 at_index_2)

lemma indexOf_ge: "- 1 \<le> indexOf xs a"
  by (induction xs) (auto simp: Let_def)

lemma indexOf_absent: "indexOf xs a = - 1 \<longleftrightarrow> a \<notin> set xs"
proof (induction xs)
  case Nil
  then show ?case by simp
next
  case (Cons b bs)
  have "indexOf bs a + 1 \<noteq> - 1"
    using indexOf_ge [of bs a] by arith
  with Cons show ?case by (auto simp: Let_def)
qed

text \<open>
  The two paths beside the forwarding: a keybind event that arrives before the main
  window is assigned throws, and a command line without \<^verbatim>\<open>--keybind\<close> (outside
  development mode) brings the window to the front.
\<close>

lemma second_instance_no_window:
  assumes "''--keybind'' \<in> set cmdLine"
  shows "second_instance None cmdLine dev = Inl TypeError"
  using assms
  by (simp add: second_instance_def executeJavaScript_def indexOf_absent Let_def)

lemma second_instance_focus:
  assumes "''--keybind'' \<notin> set cmdLine"
  shows "second_instance (Some w) cmdLine False =
           Inr ((if isMinimized w then [WinRestore] else []) @
                (if \<not> isVisible w then [WinShow] else []) @ [WinFocus])"
  using assms
  by (simp add: second_instance_def indexOf_absent Let_def)

text \<open>
  C6 says that every second-instance invocation whose command line holds \<^verbatim>\<open>--keybind\<close>,
  an id and \<^verbatim>\<open>keydown\<close> has the callback of that id invoked with \<^verbatim>\<open>true\<close>. The handler
  is registered before any window is built and reads \<^verbatim>\<open>mainWin.webContents\<close> without
  a test. For a command line \<^verbatim>\<open>equibop --keybind 3 keydown\<close> that arrives while
  \<^verbatim>\<open>mainWin\<close> is still unset the handler throws, and no script is executed.
\<close>

theorem second_instance_keydown_without_window:
  "second_instance None [''equibop'', ''--keybind'', ''3'', ''keydown''] False = Inl TypeError \<and>
   second_instance None [''equibop'', ''--keybind'', ''3'', ''keydown''] False \<noteq>
     Inr [ExecuteJavaScript ''Vesktop.keybindCallbacks[3](true)'']"
  by (simp add: second_instance_def executeJavaScript_def at_index_def Let_def)

text \<open>
  C6, amended. The invocation arrives while the main window exists, and its command line
  holds \<^verbatim>\<open>--keybind\<close> (its first occurrence, which is the one \<^verbatim>\<open>indexOf\<close> finds), then
  an id \<open>k\<close>, then \<^verbatim>\<open>keydown\<close> or \<^verbatim>\<open>keyup\<close>; anything may stand before and after.
  Then the running instance executes in that window the call of entry \<open>k\<close> of
  \<^verbatim>\<open>Vesktop.keybindCallbacks\<close> with the argument \<^verbatim>\<open>true\<close> for \<^verbatim>\<open>keydown\<close> and
  \<^verbatim>\<open>false\<close> for \<^verbatim>\<open>keyup\<close>, and does nothing else.
\<close>

theorem second_instance_keybind:
  assumes "mainWin \<noteq> None" and "''--keybind'' \<notin> set pre"
  shows "second_instance mainWin (pre @ [''--keybind'', k, ''keydown''] @ post) dev =
           Inr [ExecuteJavaScript (''Vesktop.keybindCallbacks['' @ k @ ''](true)'')] \<and>
         second_instance mainWin (pre @ [''--keybind'', k, ''keyup''] @ post) dev =
           Inr [ExecuteJavaScript (''Vesktop.keybindCallbacks['' @ k @ ''](false)'')]"
proof -
  from assms(1) obtain w where w: "mainWin = Some w"
    by auto
  show ?thesis
    using assms(2)
    by (simp add: w second_instance_def executeJavaScript_def interpolate_def keybind_at Let_def)
qed

theorem second_instance_keybind_witness:
  "second_instance (Some \<lparr>isMinimized = False, isVisible = True\<rparr>)
     [''equibop'', ''--keybind'', ''3'', ''keydown''] False =
     Inr [ExecuteJavaScript ''Vesktop.keybindCallbacks[3](true)''] \<and>
   second_instance (Some \<lparr>isMinimized = False, isVisible = True\<rparr>)
     [''equibop'', ''--keybind'', ''3'', ''keyup''] False =
     Inr [ExecuteJavaScript ''Vesktop.keybindCallbacks[3](false)'']"
  using second_instance_keybind
    [of "Some \<lparr>isMinimized = False, isVisible = True\<rparr>" "[''equibop'']" "''3''" "[]" False]
  by simp

text \<open>
  C10 says that every second-instance invocation whose command line holds \<^verbatim>\<open>--keybind\<close>,
  an id and a third token that is neither \<^verbatim>\<open>keydown\<close> nor \<^verbatim>\<open>keyup\<close>, or no third
  token, still has the callback of that id invoked, with \<^verbatim>\<open>false\<close>. This branch reads
  \<^verbatim>\<open>mainWin.webContents\<close> without a test as well. For the command lines
  \<^verbatim>\<open>equibop --keybind 3 press\<close> and \<^verbatim>\<open>equibop --keybind 3\<close> that arrive while
  \<^verbatim>\<open>mainWin\<close> is still unset the handler throws, and no script is executed.
\<close>

theorem second_instance_malformed_without_window:
  "second_instance None [''equibop'', ''--keybind'', ''3'', ''press''] False = Inl TypeError \<and>
   second_instance None [''equibop'', ''--keybind'', ''3''] False = Inl TypeError \<and>
   second_instance None [''equibop'', ''--keybind'', ''3'', ''press''] False \<noteq>
     Inr [ExecuteJavaScript ''Vesktop.keybindCallbacks[3](false)'']"
  by (simp add: second_instance_def executeJavaScript_def at_index_def Let_def)

text \<open>
  C10, amended. The invocation arrives while the main window exists, and its command line
  holds \<^verbatim>\<open>--keybind\<close> (its first occurrence) and an id \<open>k\<close>. When the token after the
  id is neither \<^verbatim>\<open>keydown\<close> nor \<^verbatim>\<open>keyup\<close>, or when the command line ends with the id,
  the running instance still executes in that window the call of entry \<open>k\<close> of
  \<^verbatim>\<open>Vesktop.keybindCallbacks\<close>, with the argument \<^verbatim>\<open>false\<close>: the event is handled as a
  key-up, not dropped.
\<close>

theorem second_instance_malformed:
  assumes "mainWin \<noteq> None" and "''--keybind'' \<notin> set pre"
    and "t \<noteq> ''keydown''" and "t \<noteq> ''keyup''"
  shows "second_instance mainWin (pre @ [''--keybind'', k, t] @ post) dev =
           Inr [ExecuteJavaScript (''Vesktop.keybindCallbacks['' @ k @ ''](false)'')] \<and>
         second_instance mainWin (pre @ [''--keybind'', k]) dev =
           Inr [ExecuteJavaScript (''Vesktop.keybindCallbacks['' @ k @ ''](false)'')]"
proof -
  from assms(1) obtain w where w: "mainWin = Some w"
    by auto
  show ?thesis
    using assms(2-4)
    by (simp add: w second_instance_def executeJavaScript_def interpolate_def keybind_at Let_def)
qed

theorem second_instance_malformed_witness:
  "second_instance (Some \<lparr>isMinimized = False, isVisible = True\<rparr>)
     [''equibop'', ''--keybind'', ''3'', ''press''] False =
     Inr [ExecuteJavaScript ''Vesktop.keybindCallbacks[3](false)''] \<and>
   second_instance (Some \<lparr>isMinimized = False, isVisible = True\<rparr>)
     [''equibop'', ''--keybind'', ''3''] False =
     Inr [ExecuteJavaScript ''Vesktop.keybindCallbacks[3](false)'']"
  using second_instance_malformed
    [of "Some \<lparr>isMinimized = False, isVisible = True\<rparr>" "[''equibop'']" "''press''" "''3''" "[]" False]
  by simp

section \<open>Settings listener bookkeeping\<close>

lemma fold_removeChangeListener:
  "fold (\<lambda>(listener, path) regs. removeChangeListener path listener regs) al regs =
     regs - {(p, l). (l, p) \<in> set al}"
  by (induction al arbitrary: regs) (auto simp: removeChangeListener_def)

text \<open>
  The keys of the \<^verbatim>\<open>Map\<close> are distinct when the helpers are made, and
  \<^verbatim>\<open>addListener\<close> keeps them so.
\<close>

lemma listeners_distinct_init: "distinct (map fst (listeners (makeSettingsListenerHelpers regs)))"
  by (simp add: makeSettingsListenerHelpers_def)

lemma listeners_distinct_add:
  "distinct (map fst (listeners h)) \<Longrightarrow> distinct (map fst (listeners (addListener path cb h)))"
  by (simp add: addListener_def distinct_update)

lemma listeners_add_twice:
  "listeners (addListener k2 cb (addListener k1 cb h)) = AList.update cb k2 (listeners h)"
  by (simp add: addListener_def)

text \<open>
  C9. The bookkeeping is keyed by the callback. When one callback \<open>cb\<close> is registered
  through \<^verbatim>\<open>addListener\<close> under the key \<open>k1\<close> and then under a different key \<open>k2\<close>,
  the map holds \<open>k2\<close> for \<open>cb\<close> and no longer \<open>k1\<close>, while the store holds both
  registrations. \<^verbatim>\<open>removeAllListeners\<close> then detaches \<open>cb\<close> from \<open>k2\<close> only: the
  registration under \<open>k1\<close> is still in the store, and the map is empty, so no later
  call removes it.
\<close>

theorem listener_bookkeeping_last_key:
  assumes "distinct (map fst (listeners h))" and "k1 \<noteq> k2"
  shows "map_of (listeners (addListener k2 cb (addListener k1 cb h))) cb = Some k2 \<and>
         (cb, k1) \<notin> set (listeners (addListener k2 cb (addListener k1 cb h))) \<and>
         (k1, cb) \<in> store_listeners (addListener k2 cb (addListener k1 cb h)) \<and>
         (k2, cb) \<in> store_listeners (addListener k2 cb (addListener k1 cb h)) \<and>
         (k2, cb) \<notin> store_listeners (removeAllListeners (addListener k2 cb (addListener k1 cb h))) \<and>
         (k1, cb) \<in> store_listeners (removeAllListeners (addListener k2 cb (addListener k1 cb h))) \<and>
         listeners (removeAllListeners (addListener k2 cb (addListener k1 cb h))) = []"
proof -
  let ?h2 = "addListener k2 cb (addListener k1 cb h)"
  have L: "listeners ?h2 = AList.update cb k2 (listeners h)"
    by (rule listeners_add_twice)
  have D: "distinct (map fst (listeners ?h2))"
    using assms(1) by (simp add: L distinct_update)
  have M: "map_of (listeners ?h2) cb = Some k2"
    by (simp add: L update_conv')
  have In: "(cb, k2) \<in> set (listeners ?h2)"
    using M D by simp
  have Out: "(cb, k1) \<notin> set (listeners ?h2)"
  proof
    assume "(cb, k1) \<in> set (listeners ?h2)"
    with D have "map_of (listeners ?h2) cb = Some k1" by simp
    with M assms(2) show False by simp
  qed
  have S: "(k1, cb) \<in> store_listeners ?h2" "(k2, cb) \<in> store_listeners ?h2"
    by (simp_all add: addListener_def addChangeListener_def)
  have R: "store_listeners (removeAllListeners ?h2) =
             store_listeners ?h2 - {(p, l). (l, p) \<in> set (listeners ?h2)}"
    by (simp add: removeAllListeners_def fold_removeChangeListener)
  have E: "listeners (removeAllListeners ?h2) = []"
    by (simp add: removeAllListeners_def)
  show ?thesis
    using M Out S In R E by simp
qed

theorem listener_bookkeeping_last_key_witness:
  "map_of (listeners (addListener ''enableMenu'' (0::nat)
      (addListener ''tray'' 0 (makeSettingsListenerHelpers {})))) 0 = Some ''enableMenu'' \<and>
   (''enableMenu'', 0) \<notin> store_listeners (removeAllListeners (addListener ''enableMenu'' (0::nat)
      (addListener ''tray'' 0 (makeSettingsListenerHelpers {})))) \<and>
   (''tray'', 0) \<in> store_listeners (removeAllListeners (addListener ''enableMenu'' (0::nat)
      (addListener ''tray'' 0 (makeSettingsListenerHelpers {}))))"
  using listener_bookkeeping_last_key
    [of "makeSettingsListenerHelpers {}" "''tray''" "''enableMenu''" "0::nat"]
    listeners_distinct_init [of "{} :: (string \<times> nat) set"]
  by simp

section \<open>The reset flow\<close>

text \<open>
  C5. When the response of the confirmation dialog is the cancel choice, which is also the
  response of a dismissed dialog, \<^verbatim>\<open>clearData\<close> has no effect at all: nothing is cleared
  or deleted, the window is not closed, the application is neither relaunched nor quit.
  Whenever \<^verbatim>\<open>clearData\<close> has any effect, the response was not the cancel choice; then
  the window is closed first, and if no operation rejects, storage, cache and code caches
  are cleared, the data directory is removed, and the application is relaunched and quit,
  in this order.
\<close>

theorem clearData_cancel:
  "(showMessageBox (Cancel M) act = Cancel M \<longrightarrow> clearData M rejects act = []) \<and>
   clearData M rejects Dismissed = [] \<and>
   (clearData M rejects act \<noteq> [] \<longrightarrow> showMessageBox (Cancel M) act \<noteq> Cancel M) \<and>
   (showMessageBox (Cancel M) act \<noteq> Cancel M \<longrightarrow>
      take 1 (clearData M rejects act) = [WinClose]) \<and>
   (showMessageBox (Cancel M) act \<noteq> Cancel M \<and> (\<forall>e. \<not> rejects e) \<longrightarrow>
      clearData M rejects act =
        [WinClose, ClearStorageData, ClearCache, ClearCodeCaches, RmDataDir, AppRelaunch, AppQuit])"
proof -
  have cancelled: "clearData M rejects a = []"
    if "showMessageBox (Cancel M) a = Cancel M" for a
    using that by (simp add: clearData_def)
  have dismissed: "showMessageBox (Cancel M) Dismissed = Cancel M"
    by (simp add: showMessageBox_def)
  have started: "take 1 (clearData M rejects act) = [WinClose]"
    if "showMessageBox (Cancel M) act \<noteq> Cancel M"
    using that by (simp add: clearData_def split: prod.splits)
  have all_done:
    "awaits rejects [ClearStorageData, ClearCache, ClearCodeCaches, RmDataDir] =
       ([ClearStorageData, ClearCache, ClearCodeCaches, RmDataDir], True)"
    if "\<forall>e. \<not> rejects e"
    using that by simp
  have finished: "clearData M rejects act =
      [WinClose, ClearStorageData, ClearCache, ClearCodeCaches, RmDataDir, AppRelaunch, AppQuit]"
    if "showMessageBox (Cancel M) act \<noteq> Cancel M" and "\<forall>e. \<not> rejects e"
    using that(1) all_done [OF that(2)] by (simp add: clearData_def)
  from cancelled [of act] cancelled [OF dismissed] started finished show ?thesis
    by blast
qed

theorem clearData_cancel_witness:
  "clearData \<lparr>Default = 0, Cancel = 1\<rparr> (\<lambda>e. False) (Clicked 1) = [] \<and>
   clearData \<lparr>Default = 0, Cancel = 1\<rparr> (\<lambda>e. False) Dismissed = [] \<and>
   clearData \<lparr>Default = 0, Cancel = 1\<rparr> (\<lambda>e. False) (Clicked 0) =
     [WinClose, ClearStorageData, ClearCache, ClearCodeCaches, RmDataDir, AppRelaunch, AppQuit]"
  using clearData_cancel [of "\<lparr>Default = 0, Cancel = 1\<rparr>" "Clicked 1" "\<lambda>e. False"]
    clearData_cancel [of "\<lparr>Default = 0, Cancel = 1\<rparr>" "Clicked 0" "\<lambda>e. False"]
  by (simp add: showMessageBox_def)

section \<open>Window bounds for a display that is gone\<close>

lemma find_no_display:
  "\<forall>d \<in> set ds. Some (display_id d) \<noteq> i \<Longrightarrow> find (\<lambda>d. Some (display_id d) = i) ds = None"
  by (simp add: find_None_iff)

text \<open>
  The stored position is used when the stored display is still attached.
\<close>

lemma getWindowBoundsOptions_known_display:
  assumes "\<not> deck" and "windowBounds st = Some b"
    and "bounds_x b = Some x0" and "bounds_y b = Some y0"
    and "d \<in> set allDisplays" and "displayid st = Some (display_id d)"
  shows "opt_x (getWindowBoundsOptions c deck st allDisplays dms) = Some x0 \<and>
         opt_y (getWindowBoundsOptions c deck st allDisplays dms) = Some y0"
proof -
  have "find (\<lambda>d. Some (display_id d) = displayid st) allDisplays \<noteq> None"
    using assms(5,6) by (auto simp: find_None_iff)
  with assms(1-4) show ?thesis
    by (simp add: getWindowBoundsOptions_def empty_options_def nullish_def Let_def)
qed

text \<open>
  C2 says that with a stored display id that matches no current display, the window gets
  the default width and height and the stored size is not used. The code guards only the
  position with the display: the size is \<^verbatim>\<open>width ?? DEFAULT_WIDTH\<close> and
  \<^verbatim>\<open>height ?? DEFAULT_HEIGHT\<close> whatever the display. With defaults 1280 by 720, stored
  bounds of 1000 by 700 at (100, 50) on display 7, and display 1 as the only display, the
  options carry the stored size.
\<close>

theorem getWindowBoundsOptions_keeps_stored_size:
  "find (\<lambda>d. Some (display_id d) = Some 7) [\<lparr>display_id = 1\<rparr>] = None \<and>
   opt_width (getWindowBoundsOptions
      \<lparr>DEFAULT_WIDTH = 1280, DEFAULT_HEIGHT = 720, MIN_WIDTH = 940, MIN_HEIGHT = 500\<rparr> False
      \<lparr>windowBounds = Some \<lparr>bounds_x = Some 100, bounds_y = Some 50,
                            bounds_width = Some 1000, bounds_height = Some 700\<rparr>,
       displayid = Some 7\<rparr>
      [\<lparr>display_id = 1\<rparr>] None) = Some 1000 \<and>
   opt_height (getWindowBoundsOptions
      \<lparr>DEFAULT_WIDTH = 1280, DEFAULT_HEIGHT = 720, MIN_WIDTH = 940, MIN_HEIGHT = 500\<rparr> False
      \<lparr>windowBounds = Some \<lparr>bounds_x = Some 100, bounds_y = Some 50,
                            bounds_width = Some 1000, bounds_height = Some 700\<rparr>,
       displayid = Some 7\<rparr>
      [\<lparr>display_id = 1\<rparr>] None) = Some 700 \<and>
   opt_width (getWindowBoundsOptions
      \<lparr>DEFAULT_WIDTH = 1280, DEFAULT_HEIGHT = 720, MIN_WIDTH = 940, MIN_HEIGHT = 500\<rparr> False
      \<lparr>windowBounds = Some \<lparr>bounds_x = Some 100, bounds_y = Some 50,
                            bounds_width = Some 1000, bounds_height = Some 700\<rparr>,
       displayid = Some 7\<rparr>
      [\<lparr>display_id = 1\<rparr>] None) \<noteq> Some 1280"
  by (simp add: getWindowBoundsOptions_def empty_options_def nullish_def Let_def)

text \<open>
  C2, amended. When the stored display id matches no display of the current enumeration,
  the options carry no explicit position, whatever the stored coordinates are. Outside
  deck game mode the width and the height are the stored ones where the record has them,
  and the defaults where it has not (or where there is no record). In deck game mode the
  options are empty.
\<close>

theorem getWindowBoundsOptions_unknown_display:
  assumes "\<forall>d \<in> set allDisplays. Some (display_id d) \<noteq> displayid st"
  shows "opt_x (getWindowBoundsOptions c deck st allDisplays dms) = None \<and>
         opt_y (getWindowBoundsOptions c deck st allDisplays dms) = None \<and>
         (\<not> deck \<longrightarrow>
            opt_width (getWindowBoundsOptions c deck st allDisplays dms) =
              Some (case windowBounds st of None \<Rightarrow> DEFAULT_WIDTH c
                    | Some b \<Rightarrow> (case bounds_width b of None \<Rightarrow> DEFAULT_WIDTH c | Some w \<Rightarrow> w)) \<and>
            opt_height (getWindowBoundsOptions c deck st allDisplays dms) =
              Some (case windowBounds st of None \<Rightarrow> DEFAULT_HEIGHT c
                    | Some b \<Rightarrow> (case bounds_height b of None \<Rightarrow> DEFAULT_HEIGHT c | Some h \<Rightarrow> h))) \<and>
         (deck \<longrightarrow> getWindowBoundsOptions c deck st allDisplays dms = empty_options)"
  using find_no_display [OF assms]
  by (simp add: getWindowBoundsOptions_def empty_options_def nullish_def Let_def
      split: option.splits)

theorem getWindowBoundsOptions_unknown_display_witness:
  "opt_x (getWindowBoundsOptions
      \<lparr>DEFAULT_WIDTH = 1280, DEFAULT_HEIGHT = 720, MIN_WIDTH = 940, MIN_HEIGHT = 500\<rparr> False
      \<lparr>windowBounds = Some \<lparr>bounds_x = Some 100, bounds_y = Some 50,
                            bounds_width = None, bounds_height = Some 700\<rparr>,
       displayid = Some 7\<rparr>
      [\<lparr>display_id = 1\<rparr>] None) = None \<and>
   opt_width (getWindowBoundsOptions
      \<lparr>DEFAULT_WIDTH = 1280, DEFAULT_HEIGHT = 720, MIN_WIDTH = 940, MIN_HEIGHT = 500\<rparr> False
      \<lparr>windowBounds = Some \<lparr>bounds_x = Some 100, bounds_y = Some 50,
                            bounds_width = None, bounds_height = Some 700\<rparr>,
       displayid = Some 7\<rparr>
      [\<lparr>display_id = 1\<rparr>] None) = Some 1280 \<and>
   opt_height (getWindowBoundsOptions
      \<lparr>DEFAULT_WIDTH = 1280, DEFAULT_HEIGHT = 720, MIN_WIDTH = 940, MIN_HEIGHT = 500\<rparr> False
      \<lparr>windowBounds = Some \<lparr>bounds_x = Some 100, bounds_y = Some 50,
                            bounds_width = None, bounds_height = Some 700\<rparr>,
       displayid = Some 7\<rparr>
      [\<lparr>display_id = 1\<rparr>] None) = Some 700"
  using getWindowBoundsOptions_unknown_display
    [of "[\<lparr>display_id = 1\<rparr>]"
        "\<lparr>windowBounds = Some \<lparr>bounds_x = Some 100, bounds_y = Some 50,
                              bounds_width = None, bounds_height = Some 700\<rparr>,
          displayid = Some 7\<rparr>"
        "\<lparr>DEFAULT_WIDTH = 1280, DEFAULT_HEIGHT = 720, MIN_WIDTH = 940, MIN_HEIGHT = 500\<rparr>"
        False None]
  by simp

section \<open>Spellcheck languages\<close>

lemma array_includes_set: "array_includes xs a \<longleftrightarrow> a \<in> set xs"
  by (induction xs) auto

lemma array_filter_filter: "array_filter p xs = filter p xs"
  by (induction xs) auto

lemma slice_prefix: "0 \<le> n \<Longrightarrow> slice xs 0 n = take (nat n) xs"
  by (simp add: slice_def slice_bound_def Let_def min_def)

lemma applicable_languages_eq:
  "applicable_languages available languages = take 5 (filter (\<lambda>l. l \<in> set available) languages)"
  by (simp add: applicable_languages_def array_filter_filter array_includes_set slice_prefix)

text \<open>
  C4 says that for every requested list the applied list is the requested languages the
  engine supports, in order, cut to five. The code applies that list only when it is not
  empty (\<^verbatim>\<open>if (applicable.length)\<close>). With \<^verbatim>\<open>de-DE\<close> in use and only the unsupported
  \<^verbatim>\<open>xx-XX\<close> requested, the list so computed is empty, and the session still uses
  \<^verbatim>\<open>de-DE\<close>.
\<close>

theorem initSpellCheckLanguages_none_applicable:
  "spellCheckerLanguages (initSpellCheckLanguages Rejected (Some [''xx-XX''])
     \<lparr>availableSpellCheckerLanguages = [''en-US'', ''fr-FR'', ''de-DE''],
      spellCheckerLanguages = [''de-DE'']\<rparr>) = [''de-DE''] \<and>
   take 5 (filter (\<lambda>l. l \<in> set [''en-US'', ''fr-FR'', ''de-DE'']) [''xx-XX'']) = [] \<and>
   spellCheckerLanguages (initSpellCheckLanguages Rejected (Some [''xx-XX''])
     \<lparr>availableSpellCheckerLanguages = [''en-US'', ''fr-FR'', ''de-DE''],
      spellCheckerLanguages = [''de-DE'']\<rparr>) \<noteq>
   take 5 (filter (\<lambda>l. l \<in> set [''en-US'', ''fr-FR'', ''de-DE'']) [''xx-XX''])"
  by (simp add: initSpellCheckLanguages_def applicable_languages_eq Let_def)

text \<open>
  C4, amended. The list \<^verbatim>\<open>initSpellCheckLanguages\<close> computes from a requested list is
  exactly the requested languages that the engine supports, in the requested order, cut
  to at most five entries. When that list is not empty it becomes the session's list;
  when it is empty nothing is applied and the session is left as it was. Requested
  \<^verbatim>\<open>xx-XX, en-US, fr-FR\<close> against supported \<^verbatim>\<open>en-US, fr-FR, de-DE\<close> applies exactly
  \<^verbatim>\<open>en-US, fr-FR\<close> (the instance that follows the theorem).
\<close>

theorem initSpellCheckLanguages_applied:
  "applicable_languages (availableSpellCheckerLanguages ses) languages =
     take 5 (filter (\<lambda>l. l \<in> set (availableSpellCheckerLanguages ses)) languages) \<and>
   subseq (applicable_languages (availableSpellCheckerLanguages ses) languages) languages \<and>
   length (applicable_languages (availableSpellCheckerLanguages ses) languages) \<le> 5 \<and>
   (applicable_languages (availableSpellCheckerLanguages ses) languages \<noteq> [] \<longrightarrow>
      spellCheckerLanguages (initSpellCheckLanguages nav (Some languages) ses) =
        applicable_languages (availableSpellCheckerLanguages ses) languages) \<and>
   (applicable_languages (availableSpellCheckerLanguages ses) languages = [] \<longrightarrow>
      initSpellCheckLanguages nav (Some languages) ses = ses)"
proof -
  let ?a = "applicable_languages (availableSpellCheckerLanguages ses) languages"
  have E: "?a = take 5 (filter (\<lambda>l. l \<in> set (availableSpellCheckerLanguages ses)) languages)"
    by (rule applicable_languages_eq)
  have "subseq (take 5 (filter (\<lambda>l. l \<in> set (availableSpellCheckerLanguages ses)) languages))
          (filter (\<lambda>l. l \<in> set (availableSpellCheckerLanguages ses)) languages)"
    by (metis append_take_drop_id prefix_def prefix_imp_subseq)
  then have S: "subseq ?a languages"
    unfolding E by (rule subseq_order.trans) simp
  have L: "length ?a \<le> 5"
    unfolding E by simp
  have A: "?a \<noteq> [] \<longrightarrow>
      spellCheckerLanguages (initSpellCheckLanguages nav (Some languages) ses) = ?a"
    by (simp add: initSpellCheckLanguages_def setSpellCheckerLanguages_def Let_def)
  have B: "?a = [] \<longrightarrow> initSpellCheckLanguages nav (Some languages) ses = ses"
    by (simp add: initSpellCheckLanguages_def Let_def)
  from E S L A B show ?thesis by blast
qed

theorem initSpellCheckLanguages_applied_witness:
  "spellCheckerLanguages (initSpellCheckLanguages Rejected (Some [''xx-XX'', ''en-US'', ''fr-FR''])
     \<lparr>availableSpellCheckerLanguages = [''en-US'', ''fr-FR'', ''de-DE''],
      spellCheckerLanguages = []\<rparr>) = [''en-US'', ''fr-FR'']"
  using initSpellCheckLanguages_applied
    [of "\<lparr>availableSpellCheckerLanguages = [''en-US'', ''fr-FR'', ''de-DE''],
          spellCheckerLanguages = []\<rparr>" "[''xx-XX'', ''en-US'', ''fr-FR'']" Rejected]
  by simp

section \<open>The close handler\<close>

text \<open>
  C8. With the quitting flag set (as \<^verbatim>\<open>before-quit\<close> and the tray's Quit entry set it)
  the handler does nothing, so the close goes on to destroy the window. With the flag
  unset, minimize-to-tray and tray not switched off, a platform other than \<^verbatim>\<open>darwin\<close>
  and no deck game mode, the handler prevents the default and hides the window. With the
  flag unset and the tray-minimize policy active, the default is prevented on every
  platform: the window is not destroyed.
\<close>

theorem on_close_policy:
  "(isQuitting m \<longrightarrow> on_close m deck platform s = []) \<and>
   on_close (before_quit m) deck platform s = [] \<and>
   on_close (fst (tray_menu_quit m)) deck platform s = [] \<and>
   (\<not> isQuitting m \<and> minimizeToTray s \<noteq> Some False \<and> tray s \<noteq> Some False \<and>
      platform \<noteq> ''darwin'' \<and> \<not> deck \<longrightarrow>
      on_close m deck platform s = [PreventDefault, WinHide]) \<and>
   (\<not> isQuitting m \<and> minimizeToTray s \<noteq> Some False \<and> tray s \<noteq> Some False \<and> \<not> deck \<longrightarrow>
      on_close m deck platform s \<noteq> [] \<and> hd (on_close m deck platform s) = PreventDefault)"
proof -
  have quitting: "on_close m' deck platform s = []" if "isQuitting m'" for m'
    using that by (simp add: on_close_def)
  have flag1: "isQuitting (before_quit m)"
    by (simp add: before_quit_def)
  have flag2: "isQuitting (fst (tray_menu_quit m))"
    by (simp add: tray_menu_quit_def)
  have hidden: "on_close m deck platform s = [PreventDefault, WinHide]"
    if "\<not> isQuitting m" and "minimizeToTray s \<noteq> Some False" and "tray s \<noteq> Some False"
      and "platform \<noteq> ''darwin''" and "\<not> deck"
    using that by (simp add: on_close_def)
  have kept: "on_close m deck platform s \<noteq> [] \<and> hd (on_close m deck platform s) = PreventDefault"
    if "\<not> isQuitting m" and "minimizeToTray s \<noteq> Some False" and "tray s \<noteq> Some False"
      and "\<not> deck"
    using that by (simp add: on_close_def)
  from quitting [of m] quitting [OF flag1] quitting [OF flag2] hidden kept show ?thesis
    by blast
qed

theorem on_close_policy_witness:
  "on_close \<lparr>isQuitting = True\<rparr> False ''linux'' \<lparr>minimizeToTray = Some True, tray = Some True\<rparr> = [] \<and>
   on_close \<lparr>isQuitting = False\<rparr> False ''linux'' \<lparr>minimizeToTray = Some True, tray = None\<rparr> =
     [PreventDefault, WinHide]"
  using on_close_policy [of "\<lparr>isQuitting = True\<rparr>" False "''linux''"
      "\<lparr>minimizeToTray = Some True, tray = Some True\<rparr>"]
    on_close_policy [of "\<lparr>isQuitting = False\<rparr>" False "''linux''"
      "\<lparr>minimizeToTray = Some True, tray = None\<rparr>"]
  by simp

section \<open>Accent colour\<close>

lemma hex_digit_is_hex: "d < 16 \<Longrightarrow> is_hex (hex_digit d)"
  unfolding hex_digit_def is_hex_def by (rule nth_mem) simp

lemma toString16_nat_byte:
  assumes "n < 256"
  shows "length (toString16_nat n) \<le> 2 \<and> toString16_nat n \<noteq> [] \<and>
         list_all is_hex (toString16_nat n)"
proof (cases "n < 16")
  case True
  then show ?thesis using hex_digit_is_hex [of n] by simp
next
  case False
  with assms have "n div 16 < 16" by simp
  moreover have "n mod 16 < 16" by simp
  ultimately show ?thesis
    using False hex_digit_is_hex [of "n div 16"] hex_digit_is_hex [of "n mod 16"]
    by simp
qed

lemma is_hex_zero: "is_hex (CHR ''0'')"
  by (simp add: is_hex_def)

lemma toHex_byte:
  assumes "0 \<le> v" and "v \<le> 255"
  shows "length (toHex (Finite v)) = 2 \<and> list_all is_hex (toHex (Finite v))"
proof -
  have "nat v < 256" using assms by simp
  from toString16_nat_byte [OF this] assms(1) show ?thesis
    by (auto simp: toHex_def number_toString16_def toString16_def padStart_def is_hex_zero
        list_all_iff simp del: toString16_nat.simps)
qed

text \<open>
  On Linux the two error callbacks fulfil the promise with the empty string. The other
  failures do not: a throw inside the executor rejects the promise, and an unhandled bus
  error or a throw inside a callback leaves it unsettled.
\<close>

lemma getAccentColor_linux_error:
  "getAccentColor round255 ''linux'' GetInterfaceError native = Fulfilled [] \<and>
   getAccentColor round255 ''linux'' ReadError native = Fulfilled []"
  by (simp add: getAccentColor_def)

lemma getAccentColor_linux_unhandled:
  "getAccentColor round255 ''linux'' SessionBusThrows native = PromiseRejected \<and>
   getAccentColor round255 ''linux'' BusErrorEvent native = Unsettled \<and>
   getAccentColor round255 ''linux'' ReadThrows native = Unsettled \<and>
   getAccentColor round255 ''linux'' ReadMalformed native = Unsettled"
  by (simp add: getAccentColor_def)

text \<open>
  A result whose components round to integers in 0..255 gives \<^verbatim>\<open>#\<close> and six
  hexadecimal digits; a component that rounds to \<^verbatim>\<open>NaN\<close> does not.
\<close>

lemma getAccentColor_linux_result:
  assumes "round255 r = Finite vr" and "0 \<le> vr \<and> vr \<le> 255"
    and "round255 g = Finite vg" and "0 \<le> vg \<and> vg \<le> 255"
    and "round255 b = Finite vb" and "0 \<le> vb \<and> vb \<le> 255"
  shows "getAccentColor round255 ''linux'' (ReadResult r g b) native =
           Fulfilled (''#'' @ toHex (Finite vr) @ toHex (Finite vg) @ toHex (Finite vb)) \<and>
         length (toHex (Finite vr) @ toHex (Finite vg) @ toHex (Finite vb)) = 6 \<and>
         list_all is_hex (toHex (Finite vr) @ toHex (Finite vg) @ toHex (Finite vb))"
  using toHex_byte [of vr] toHex_byte [of vg] toHex_byte [of vb] assms
  by (simp add: getAccentColor_def Let_def)

lemma getAccentColor_linux_example:
  "getAccentColor Finite ''linux'' (ReadResult 0 128 255) native = Fulfilled ''#0080ff''"
  by (simp add: getAccentColor_def toHex_def number_toString16_def toString16_def padStart_def
      hex_digit_def Let_def)

lemma getAccentColor_linux_nan:
  "getAccentColor (\<lambda>c. NaN) ''linux'' (ReadResult r g b) native = Fulfilled ''#NaNNaNNaN''"
  by (simp add: getAccentColor_def toHex_def number_toString16_def padStart_def Let_def)

text \<open>
  C3 says that every failure of the accent-colour query resolves to the empty string, on
  every platform. Off Linux the \<^verbatim>\<open>#\<close> is put in front of the fallback as well:
  on \<^verbatim>\<open>win32\<close>, when the native query does not exist or returns the empty string,
  the promise of \<^verbatim>\<open>getAccentColor\<close> is fulfilled with the one-character string
  \<^verbatim>\<open>#\<close>, not with the empty string.
\<close>

theorem getAccentColor_native_missing:
  "getAccentColor round255 ''win32'' reply None = Fulfilled ''#'' \<and>
   getAccentColor round255 ''win32'' reply (Some []) = Fulfilled ''#'' \<and>
   getAccentColor round255 ''win32'' reply None \<noteq> Fulfilled []"
  by (simp add: getAccentColor_def)

end
